theory Spec2Isabelle
  imports Main
begin

section \<open>Data model\<close>

text \<open>
  The real-time layer of \<^verbatim>\<open>src/index.js\<close>: the Socket.IO authentication middleware,
  the connection handler and the four per-socket handlers (\<^verbatim>\<open>send_message\<close>,
  \<^verbatim>\<open>typing\<close>, \<^verbatim>\<open>read_message\<close>, \<^verbatim>\<open>disconnect\<close>), over an explicit server
  state. Identifiers (Mongo ObjectIds, socket ids) are opaque and modelled as naturals;
  timestamps are naturals. Each handler run is one atomic step.
\<close>

type_synonym user_id = nat
type_synonym chat_id = nat
type_synonym socket_id = nat
type_synonym message_id = nat
type_synonym time = nat

datatype presence = online | offline

text \<open>The User document, as far as the socket layer reads or writes it.\<close>

record user =
  name :: string
  avatar :: string
  status :: presence
  lastSeen :: "time option"

text \<open>
  \<^verbatim>\<open>messageSchema\<close> of \<^verbatim>\<open>src/models/Message.js\<close>: sender, content, chatId, read
  (default false). \<open>mid\<close> is the document's \<^verbatim>\<open>_id\<close>. The schema declares no other
  path; in particular it has no \<^verbatim>\<open>receiver\<close>.
\<close>

record message =
  mid :: message_id
  sender :: user_id
  content :: string
  chatId :: chat_id
  read :: bool

text \<open>\<^verbatim>\<open>chatSchema\<close>: the participants and the lastMessage pointer (\<open>cid\<close> is \<^verbatim>\<open>_id\<close>).\<close>

record chat =
  cid :: chat_id
  participants :: "user_id list"
  lastMessage :: "message_id option"

text \<open>
  A value a client may send as \<^verbatim>\<open>chatId\<close>, or a Socket.IO room name. \<open>Canonical k\<close>
  is the string \<^verbatim>\<open>toString()\<close> gives for the ObjectId \<open>k\<close>; \<open>Alias k n\<close> is another
  spelling that Mongoose casts to the same ObjectId \<open>k\<close> (the hex digits in upper case,
  say; \<open>n\<close> tells such spellings apart); \<open>Uncastable n\<close> is a value Mongoose cannot cast
  to an ObjectId.
\<close>

datatype id_value = Canonical chat_id | Alias chat_id nat | Uncastable nat

text \<open>\<^verbatim>\<open>chat._id.toString()\<close>.\<close>

definition toString :: "chat_id \<Rightarrow> id_value" where
  "toString k = Canonical k"

text \<open>The cast of a value to an ObjectId, as Mongoose does it; \<open>None\<close> is a CastError.\<close>

fun castObjectId :: "id_value \<Rightarrow> chat_id option" where
  "castObjectId (Canonical k) = Some k"
| "castObjectId (Alias k n) = Some k"
| "castObjectId (Uncastable n) = None"

text \<open>
  A live connection: \<^verbatim>\<open>socket.id\<close>, \<^verbatim>\<open>socket.userId\<close> (set by the middleware) and
  the chats whose rooms the connection handler joined it to; the room of chat \<open>k\<close> is
  named \<open>toString k\<close>.
\<close>

record socket =
  sid :: socket_id
  userId :: user_id
  rooms :: "chat_id list"

text \<open>
  The message as \<^verbatim>\<open>findById(...).populate("sender", "name avatar").lean()\<close> returns
  it: the document and the sender's name and avatar (none when the user does not exist).
\<close>

type_synonym populated_message = "message \<times> (string \<times> string) option"

text \<open>The outbound events, with their payloads.\<close>

datatype out_event =
    User_status user_id presence
  | New_message "populated_message option"
  | Typing "id_value option" "bool option"
  | Messages_read "id_value option" user_id
  | Error_event string

text \<open>
  The server: the \<^verbatim>\<open>connectedUsers\<close> map, the connections Socket.IO holds, the three
  collections, every delivery made so far (connection, event) in order, the lines written
  with \<^verbatim>\<open>console.log\<close>/\<^verbatim>\<open>console.error\<close>, and whether \<^verbatim>\<open>process.exit\<close> was called.
\<close>

record server =
  connectedUsers :: "user_id \<rightharpoonup> socket_id"
  sockets :: "socket list"
  users :: "user_id \<rightharpoonup> user"
  chats :: "chat list"
  messages :: "message list"
  sent :: "(socket_id \<times> out_event) list"
  console :: "string list"
  exited :: bool

text \<open>The process right after start: nobody connected, storage as given.\<close>

definition initial_server :: "(user_id \<rightharpoonup> user) \<Rightarrow> chat list \<Rightarrow> message list \<Rightarrow> server" where
  "initial_server us cs ms =
     \<lparr>connectedUsers = Map.empty, sockets = [], users = us, chats = cs, messages = ms,
      sent = [], console = [], exited = False\<rparr>"

text \<open>
  The payload \<^verbatim>\<open>data\<close> of an inbound event. \<open>Nullish\<close> is \<^verbatim>\<open>undefined\<close> or
  \<^verbatim>\<open>null\<close> (the client sent no payload); \<open>Primitive\<close> is a number, string or boolean;
  \<open>Object c k t\<close> is an object whose \<^verbatim>\<open>content\<close>, \<^verbatim>\<open>chatId\<close> and \<^verbatim>\<open>isTyping\<close>
  properties are \<open>c\<close>, \<open>k\<close> and \<open>t\<close> (\<open>None\<close> for an absent property).
\<close>

datatype payload = Nullish | Primitive | Object "string option" "id_value option" "bool option"

record fields =
  f_content :: "string option"
  f_chatId :: "id_value option"
  f_isTyping :: "bool option"

text \<open>
  \<^verbatim>\<open>const { content, chatId, isTyping } = data\<close>: a TypeError (\<open>None\<close>) on a nullish
  value, every property \<^verbatim>\<open>undefined\<close> on a primitive.
\<close>

definition destructure :: "payload \<Rightarrow> fields option" where
  "destructure data =
     (case data of
        Nullish \<Rightarrow> None
      | Primitive \<Rightarrow> Some \<lparr>f_content = None, f_chatId = None, f_isTyping = None\<rparr>
      | Object c k t \<Rightarrow> Some \<lparr>f_content = c, f_chatId = k, f_isTyping = t\<rparr>)"

text \<open>
  The position (from 0) of the storage call of one handler run that rejects; \<open>None\<close>
  when every call succeeds.
\<close>

type_synonym fault = "nat option"

section \<open>Fan-out\<close>

text \<open>What a handler run delivered: the deliveries of \<open>st'\<close> made after \<open>st\<close>.\<close>

definition emitted :: "server \<Rightarrow> server \<Rightarrow> (socket_id \<times> out_event) list" where
  "emitted st st' = drop (length (sent st)) (sent st')"

text \<open>
  Whether the connection is in the room of that name (no room is named by
  \<^verbatim>\<open>undefined\<close>): the name is compared with the names of the rooms joined.
\<close>

definition in_room :: "id_value option \<Rightarrow> socket \<Rightarrow> bool" where
  "in_room r x = (case r of None \<Rightarrow> False | Some n \<Rightarrow> n \<in> set (map toString (rooms x)))"

text \<open>\<^verbatim>\<open>io.emit(e)\<close>: to every connection.\<close>

definition io_emit :: "out_event \<Rightarrow> server \<Rightarrow> server" where
  "io_emit e st = st\<lparr>sent := sent st @ map (\<lambda>x. (sid x, e)) (sockets st)\<rparr>"

text \<open>\<^verbatim>\<open>io.to(room).emit(e)\<close>: to every connection in the room.\<close>

definition io_to_emit :: "id_value option \<Rightarrow> out_event \<Rightarrow> server \<Rightarrow> server" where
  "io_to_emit r e st =
     st\<lparr>sent := sent st @ map (\<lambda>x. (sid x, e)) (filter (in_room r) (sockets st))\<rparr>"

text \<open>\<^verbatim>\<open>socket.to(room).emit(e)\<close>: to every connection in the room but this one.\<close>

definition socket_to_emit :: "socket \<Rightarrow> id_value option \<Rightarrow> out_event \<Rightarrow> server \<Rightarrow> server" where
  "socket_to_emit s r e st =
     st\<lparr>sent := sent st @
        map (\<lambda>x. (sid x, e)) (filter (\<lambda>x. sid x \<noteq> sid s \<and> in_room r x) (sockets st))\<rparr>"

text \<open>\<^verbatim>\<open>socket.emit(e)\<close>: to this connection only.\<close>

definition socket_emit :: "socket \<Rightarrow> out_event \<Rightarrow> server \<Rightarrow> server" where
  "socket_emit s e st = st\<lparr>sent := sent st @ [(sid s, e)]\<rparr>"

definition console_write :: "string \<Rightarrow> server \<Rightarrow> server" where
  "console_write l st = st\<lparr>console := console st @ [l]\<rparr>"

section \<open>Storage\<close>

text \<open>\<^verbatim>\<open>User.findByIdAndUpdate(u, ...)\<close>: no document, no change.\<close>

definition update_user :: "user_id \<Rightarrow> (user \<Rightarrow> user) \<Rightarrow> (user_id \<rightharpoonup> user) \<Rightarrow> (user_id \<rightharpoonup> user)" where
  "update_user u f us = (case us u of None \<Rightarrow> us | Some r \<Rightarrow> us(u \<mapsto> f r))"

text \<open>\<^verbatim>\<open>Chat.find({ participants: u })\<close>: the ids of the chats \<open>u\<close> takes part in.\<close>

definition chats_of :: "user_id \<Rightarrow> chat list \<Rightarrow> chat_id list" where
  "chats_of u cs = map cid (filter (\<lambda>c. u \<in> set (participants c)) cs)"

text \<open>\<^verbatim>\<open>Chat.findByIdAndUpdate(k, { lastMessage: i })\<close>.\<close>

definition set_lastMessage :: "chat_id \<Rightarrow> message_id \<Rightarrow> chat list \<Rightarrow> chat list" where
  "set_lastMessage k i cs = map (\<lambda>c. if cid c = k then c\<lparr>lastMessage := Some i\<rparr> else c) cs"

text \<open>The \<^verbatim>\<open>_id\<close> of a new Message: one no stored message has.\<close>

definition fresh_mid :: "message list \<Rightarrow> message_id" where
  "fresh_mid ms = Suc (fold max (map mid ms) 0)"

text \<open>
  The \<^verbatim>\<open>chatId\<close> of a document built from the payload's value: absent when the value
  is \<^verbatim>\<open>undefined\<close> or does not cast.
\<close>

definition cast_chatId :: "id_value option \<Rightarrow> chat_id option" where
  "cast_chatId v = (case v of None \<Rightarrow> None | Some r \<Rightarrow> castObjectId r)"

text \<open>
  The \<^verbatim>\<open>chatId\<close> of a query filter: \<^verbatim>\<open>undefined\<close> stays as it is (\<open>Some None\<close>), a
  value that does not cast is a CastError (\<open>None\<close>).
\<close>

definition cast_filter :: "id_value option \<Rightarrow> chat_id option option" where
  "cast_filter v = (case v of None \<Rightarrow> Some None | Some r \<Rightarrow> map_option Some (castObjectId r))"

text \<open>
  \<^verbatim>\<open>new Message({ sender, content, chatId, read: false })\<close> as \<^verbatim>\<open>save()\<close> validates
  it against \<^verbatim>\<open>messageSchema\<close>, \<open>k\<close> being the chatId after the cast: content and
  chatId are \<^verbatim>\<open>required\<close>, and a required String rejects the empty string as it rejects
  an absent value.
\<close>

definition new_Message :: "message_id \<Rightarrow> user_id \<Rightarrow> string option \<Rightarrow> chat_id option \<Rightarrow> message option" where
  "new_Message i u c k =
     (case c of
        None \<Rightarrow> None
      | Some txt \<Rightarrow>
          if txt = [] then None
          else (case k of
                  None \<Rightarrow> None
                | Some ch \<Rightarrow> Some \<lparr>mid = i, sender = u, content = txt, chatId = ch, read = False\<rparr>))"

text \<open>\<^verbatim>\<open>Message.findById(i).populate("sender", "name avatar").lean()\<close>.\<close>

definition populate :: "(user_id \<rightharpoonup> user) \<Rightarrow> message \<Rightarrow> populated_message" where
  "populate us m = (m, map_option (\<lambda>r. (name r, avatar r)) (us (sender m)))"

definition findById_populated :: "message_id \<Rightarrow> server \<Rightarrow> populated_message option" where
  "findById_populated i st = map_option (populate (users st)) (find (\<lambda>m. mid m = i) (messages st))"

text \<open>
  The filter \<^verbatim>\<open>{ chatId, receiver: socket.userId, read: false }\<close> of the read handler.
  No Message document holds a \<^verbatim>\<open>receiver\<close> (\<open>receiver_of\<close>). \<open>strictQuery\<close> is the
  Mongoose option of that name: when set, a filter path the schema does not declare is
  dropped from the filter; when unset the path is kept and compared with the document.
\<close>

definition receiver_of :: "message \<Rightarrow> user_id option" where
  "receiver_of m = None"

definition read_filter :: "bool \<Rightarrow> chat_id option \<Rightarrow> user_id \<Rightarrow> message \<Rightarrow> bool" where
  "read_filter strictQuery k u m =
     (Some (chatId m) = k \<and> (strictQuery \<or> receiver_of m = Some u) \<and> \<not> read m)"

text \<open>\<^verbatim>\<open>Message.updateMany(filter, { read: true })\<close>.\<close>

definition updateMany_read :: "(message \<Rightarrow> bool) \<Rightarrow> message list \<Rightarrow> message list" where
  "updateMany_read flt ms = map (\<lambda>m. if flt m then m\<lparr>read := True\<rparr> else m) ms"

section \<open>Authentication middleware and connection handler\<close>

text \<open>
  The token of the handshake: \<open>Missing\<close> is a falsy \<^verbatim>\<open>socket.handshake.auth.token\<close>,
  \<open>Invalid\<close> makes \<^verbatim>\<open>jwt.verify\<close> throw, \<open>Valid u\<close> verifies to \<^verbatim>\<open>{ userId: u }\<close>.
\<close>

datatype credential = Missing | Invalid | Valid user_id

datatype handshake = Accepted | Refused string

text \<open>\<^verbatim>\<open>io.use(async (socket, next) => ...)\<close>: \<open>Inl\<close> is \<^verbatim>\<open>next(new Error(...))\<close>.\<close>

definition authenticate :: "credential \<Rightarrow> fault \<Rightarrow> server \<Rightarrow> (string + user_id) \<times> server" where
  "authenticate token flt st =
     (case token of
        Missing \<Rightarrow> (Inl ''Authentication error'', st)
      | Invalid \<Rightarrow> (Inl ''Authentication error'', console_write ''Socket authentication error:'' st)
      | Valid u \<Rightarrow>
          if flt = Some 0
          then (Inl ''Authentication error'', console_write ''Socket authentication error:'' st)
          else (Inr u, st\<lparr>users := update_user u (\<lambda>r. r\<lparr>status := online\<rparr>) (users st)\<rparr>))"

text \<open>\<^verbatim>\<open>socket.join(room)\<close> for each room of \<open>ks\<close>, on the connection with id \<open>i\<close>.\<close>

definition join :: "socket_id \<Rightarrow> chat_id list \<Rightarrow> server \<Rightarrow> server" where
  "join i ks st =
     st\<lparr>sockets := map (\<lambda>x. if sid x = i then x\<lparr>rooms := rooms x @ ks\<rparr> else x) (sockets st)\<rparr>"

text \<open>
  \<^verbatim>\<open>io.on("connection", async (socket) => ...)\<close> for the new connection \<open>i\<close> of user
  \<open>u\<close>. Socket.IO has the connection among its sockets when the handler starts.
\<close>

definition on_connection :: "socket_id \<Rightarrow> user_id \<Rightarrow> fault \<Rightarrow> server \<Rightarrow> server" where
  "on_connection i u flt st =
     (let st1 = st\<lparr>sockets := sockets st @ [\<lparr>sid = i, userId = u, rooms = []\<rparr>]\<rparr>;
          st2 = console_write ''User connected'' st1;
          st3 = st2\<lparr>connectedUsers := (connectedUsers st2)(u \<mapsto> i)\<rparr>;
          st4 = io_emit (User_status u online) st3
      in if flt = Some 0 then console_write ''Error joining chat rooms:'' st4
         else join i (chats_of u (chats st4)) st4)"

text \<open>A connection attempt: the middleware, then the connection handler if it let it pass.\<close>

definition connect :: "credential \<Rightarrow> socket_id \<Rightarrow> fault \<Rightarrow> fault \<Rightarrow> server \<Rightarrow> handshake \<times> server" where
  "connect token i auth_flt conn_flt st =
     (case authenticate token auth_flt st of
        (Inl e, st') \<Rightarrow> (Refused e, st')
      | (Inr u, st') \<Rightarrow> (Accepted, on_connection i u conn_flt st'))"

section \<open>Event handlers\<close>

text \<open>The \<^verbatim>\<open>catch\<close> block of a handler: log, then an error event to this connection.\<close>

definition catch_error :: "socket \<Rightarrow> string \<Rightarrow> string \<Rightarrow> server \<Rightarrow> server" where
  "catch_error s l msg st = socket_emit s (Error_event msg) (console_write l st)"

text \<open>
  \<^verbatim>\<open>socket.on("send_message", async (data) => ...)\<close>. The storage calls are, in
  order, \<^verbatim>\<open>newMessage.save()\<close>, \<^verbatim>\<open>Chat.findByIdAndUpdate\<close> and \<^verbatim>\<open>Message.findById\<close>.
  The document and the chat's pointer get the payload's chatId as Mongoose casts it;
  \<^verbatim>\<open>io.to(chatId)\<close> gets the payload's value as it came, as the name of the room.
\<close>

definition send_message :: "socket \<Rightarrow> payload \<Rightarrow> fault \<Rightarrow> server \<Rightarrow> server" where
  "send_message s data flt st =
     (let failed = catch_error s ''Error sending message:'' ''Failed to send message'' in
      case destructure data of
        None \<Rightarrow> failed st
      | Some f \<Rightarrow>
          (case new_Message (fresh_mid (messages st)) (userId s) (f_content f)
                  (cast_chatId (f_chatId f)) of
             None \<Rightarrow> failed st
           | Some m \<Rightarrow>
               if flt = Some 0 then failed st
               else let st1 = st\<lparr>messages := messages st @ [m]\<rparr> in
                 if flt = Some 1 then failed st1
                 else let st2 = st1\<lparr>chats := set_lastMessage (chatId m) (mid m) (chats st1)\<rparr> in
                   if flt = Some 2 then failed st2
                   else io_to_emit (f_chatId f) (New_message (findById_populated (mid m) st2)) st2))"

text \<open>
  \<^verbatim>\<open>process.on("uncaughtException", ...)\<close>: log and \<^verbatim>\<open>process.exit(1)\<close>.
\<close>

definition uncaughtException :: "server \<Rightarrow> server" where
  "uncaughtException st = (console_write ''Uncaught Exception:'' st)\<lparr>exited := True\<rparr>"

text \<open>
  \<^verbatim>\<open>socket.on("typing", (data) => ...)\<close>: the destructuring is not inside a
  \<^verbatim>\<open>try\<close>, so its TypeError is an uncaught exception.
\<close>

definition typing :: "socket \<Rightarrow> payload \<Rightarrow> server \<Rightarrow> server" where
  "typing s data st =
     (case destructure data of
        None \<Rightarrow> uncaughtException st
      | Some f \<Rightarrow> socket_to_emit s (f_chatId f) (Typing (f_chatId f) (f_isTyping f)) st)"

text \<open>
  \<^verbatim>\<open>socket.on("read_message", async (data) => ...)\<close>; its one storage call is
  \<^verbatim>\<open>Message.updateMany\<close>, which casts the filter first. \<^verbatim>\<open>socket.to(chatId)\<close> and
  the event get the payload's value as it came.
\<close>

definition read_message :: "bool \<Rightarrow> socket \<Rightarrow> payload \<Rightarrow> fault \<Rightarrow> server \<Rightarrow> server" where
  "read_message strictQuery s data flt st =
     (let failed = catch_error s ''Error marking messages as read:'' ''Failed to mark messages as read'' in
      case destructure data of
        None \<Rightarrow> failed st
      | Some f \<Rightarrow>
          (case cast_filter (f_chatId f) of
             None \<Rightarrow> failed st
           | Some k \<Rightarrow>
               if flt = Some 0 then failed st
               else let st1 = st\<lparr>messages :=
                          updateMany_read (read_filter strictQuery k (userId s)) (messages st)\<rparr>
                 in socket_to_emit s (f_chatId f) (Messages_read (f_chatId f) (userId s)) st1))"

text \<open>
  \<^verbatim>\<open>socket.on("disconnect", async () => ...)\<close>, run at clock reading \<open>now\<close>
  (\<^verbatim>\<open>new Date()\<close>). Socket.IO has dropped the connection from its sockets when the
  handler starts. The one storage call is \<^verbatim>\<open>User.findByIdAndUpdate\<close>.
\<close>

definition disconnect :: "socket \<Rightarrow> time \<Rightarrow> fault \<Rightarrow> server \<Rightarrow> server" where
  "disconnect s now flt st =
     (let st1 = st\<lparr>sockets := filter (\<lambda>x. sid x \<noteq> sid s) (sockets st)\<rparr>;
          st2 = console_write ''User disconnected'' st1;
          st3 = st2\<lparr>connectedUsers := (connectedUsers st2)(userId s := None)\<rparr>
      in if flt = Some 0 then console_write ''Error updating user status on disconnect:'' st3
         else io_emit (User_status (userId s) offline)
                (st3\<lparr>users := update_user (userId s)
                          (\<lambda>r. r\<lparr>status := offline, lastSeen := Some now\<rparr>) (users st3)\<rparr>))"

section \<open>The scenario of the specification\<close>

text \<open>
  Users A (id 1) and B (id 2) share the direct chat \<open>chat1\<close> (id 10); user C (id 3) takes
  part in no chat. Connections 100 and 101 are A's, 200 is B's, 300 is C's.
\<close>

definition user_A :: user where
  "user_A = \<lparr>name = ''A'', avatar = ''a.png'', status = offline, lastSeen = None\<rparr>"

definition user_B :: user where
  "user_B = \<lparr>name = ''B'', avatar = ''b.png'', status = offline, lastSeen = None\<rparr>"

definition user_C :: user where
  "user_C = \<lparr>name = ''C'', avatar = ''c.png'', status = offline, lastSeen = None\<rparr>"

definition chat1 :: chat where
  "chat1 = \<lparr>cid = 10, participants = [1, 2], lastMessage = None\<rparr>"

definition scenario_start :: server where
  "scenario_start = initial_server [1 \<mapsto> user_A, 2 \<mapsto> user_B, 3 \<mapsto> user_C] [chat1] []"

definition A_online :: server where
  "A_online = snd (connect (Valid 1) 100 None None scenario_start)"

definition A_two_devices :: server where
  "A_two_devices = snd (connect (Valid 1) 101 None None A_online)"

definition AB_online :: server where
  "AB_online = snd (connect (Valid 2) 200 None None A_online)"

definition ABC_online :: server where
  "ABC_online = snd (connect (Valid 3) 300 None None AB_online)"

definition socket_A :: socket where
  "socket_A = \<lparr>sid = 100, userId = 1, rooms = [10]\<rparr>"

definition socket_A' :: socket where
  "socket_A' = \<lparr>sid = 101, userId = 1, rooms = [10]\<rparr>"

definition socket_B :: socket where
  "socket_B = \<lparr>sid = 200, userId = 2, rooms = [10]\<rparr>"

definition socket_C :: socket where
  "socket_C = \<lparr>sid = 300, userId = 3, rooms = []\<rparr>"

text \<open>Two unread messages of \<open>chat1\<close>, the first written by A, the second by B.\<close>

definition unread_pair :: "message list" where
  "unread_pair =
     [\<lparr>mid = 1, sender = 1, content = ''from A'', chatId = 10, read = False\<rparr>,
      \<lparr>mid = 2, sender = 2, content = ''from B'', chatId = 10, read = False\<rparr>]"

text \<open>Another spelling of the id of \<open>chat1\<close> than the one \<^verbatim>\<open>toString()\<close> gives.\<close>

definition chat1_respelled :: id_value where
  "chat1_respelled = Alias 10 0"


section \<open>Basic facts\<close>





lemmas handler_defs = send_message_def typing_def read_message_def disconnect_def on_connection_def
  connect_def authenticate_def catch_error_def socket_emit_def socket_to_emit_def io_to_emit_def
  io_emit_def console_write_def uncaughtException_def join_def destructure_def initial_server_def
  update_user_def chats_of_def set_lastMessage_def fresh_mid_def new_Message_def populate_def
  findById_populated_def read_filter_def receiver_of_def updateMany_read_def in_room_def emitted_def
  toString_def cast_chatId_def cast_filter_def

lemmas scenario_defs = user_A_def user_B_def user_C_def chat1_def scenario_start_def A_online_def
  A_two_devices_def AB_online_def ABC_online_def socket_A_def socket_A'_def socket_B_def socket_C_def
  chat1_respelled_def

text \<open>The connection handler subscribed A and B to \<open>chat1\<close>, and C to nothing.\<close>

lemma sockets_A_online: "sockets A_online = [socket_A]"
  by (simp add: scenario_defs handler_defs)

lemma sockets_AB_online: "sockets AB_online = [socket_A, socket_B]"
  by (simp add: scenario_defs handler_defs)









section \<open>Authentication gate\<close>

text \<open>
  C8. A connection attempt that presents no token is refused with an authentication
  error, and nothing is created: the whole server state (session registry, connections
  and their subscriptions, storage, deliveries, hence no \<^verbatim>\<open>user_status\<close> broadcast)
  is what it was before the attempt.
\<close>

theorem connect_without_token_refused:
  "connect Missing i auth_flt conn_flt st = (Refused ''Authentication error'', st)"
  by (simp add: connect_def authenticate_def)

text \<open>
  C4, as the specification states it, fails: A presents a valid token, the write of
  \<^verbatim>\<open>status: "online"\<close> rejects, and the connection is refused; A has no connection and no
  registry entry.
\<close>

theorem valid_token_refused_on_storage_failure:
  "fst (connect (Valid 1) 100 (Some 0) None scenario_start) = Refused ''Authentication error''
   \<and> sockets (snd (connect (Valid 1) 100 (Some 0) None scenario_start)) = []
   \<and> connectedUsers (snd (connect (Valid 1) 100 (Some 0) None scenario_start)) 1 = None"
  by (simp add: scenario_defs handler_defs)

text \<open>
  C4, amended. For every connection attempt with a valid token, if the storage write that
  sets the user's status to online fails, the failure is logged and the connection is
  refused with an authentication error: the connection handler does not run, and the
  state changes by the log line only.
\<close>

theorem status_write_failure_refuses:
  "connect (Valid u) i (Some 0) conn_flt st =
     (Refused ''Authentication error'', console_write ''Socket authentication error:'' st)"
  by (simp add: connect_def authenticate_def)

section \<open>Session registry and presence\<close>

text \<open>
  C2, as the specification states it, fails: A is registered under connection 100; A's
  second connection 101 replaces that entry while 100 is still live; and when 101
  disconnects, A has no entry and is stored as offline although 100 is still live.
\<close>

theorem second_device_overwrites_registry:
  "connectedUsers A_online 1 = Some 100
   \<and> socket_A \<in> set (sockets A_two_devices)
   \<and> connectedUsers A_two_devices 1 = Some 101
   \<and> socket_A \<in> set (sockets (disconnect socket_A' 5 None A_two_devices))
   \<and> connectedUsers (disconnect socket_A' 5 None A_two_devices) 1 = None
   \<and> map_option status (users (disconnect socket_A' 5 None A_two_devices) 1) = Some offline"
  by (simp add: scenario_defs handler_defs)

text \<open>
  C2, amended. The session registry holds one connection per user: registering a
  connection for user U sets U's entry to that connection, replacing the entry U had, and
  leaves the entries of all other users as they were; unregistering any connection of U
  removes U's entry, whatever other connections of U are live, and leaves the other
  users' entries as they were.
\<close>

theorem registry_one_entry_per_user:
  "connectedUsers (on_connection i u flt st) = (connectedUsers st)(u \<mapsto> i)
   \<and> connectedUsers (disconnect s now flt' st) = (connectedUsers st)(userId s := None)"
  by (simp add: on_connection_def disconnect_def console_write_def io_emit_def join_def Let_def)

text \<open>
  C5, as the specification states it, fails: A is online through connection 100; A's
  second connection 101 makes the server broadcast \<^verbatim>\<open>user_status\<close> online for A again;
  and the disconnect of 101 broadcasts \<^verbatim>\<open>user_status\<close> offline for A while 100 is live.
\<close>

theorem user_status_repeated_for_online_user:
  "connectedUsers A_online 1 = Some 100
   \<and> emitted A_online A_two_devices = [(100, User_status 1 online), (101, User_status 1 online)]
   \<and> socket_A \<in> set (sockets (disconnect socket_A' 5 None A_two_devices))
   \<and> emitted A_two_devices (disconnect socket_A' 5 None A_two_devices) =
        [(100, User_status 1 offline)]"
  by (simp add: scenario_defs handler_defs)

text \<open>
  C5, amended. A \<^verbatim>\<open>user_status\<close> broadcast is emitted on every registration of a
  connection (status online, once to every live connection, the new one included, also
  when the user was online already) and on every unregistration whose storage write
  succeeds (status offline, once to every remaining connection, also when other
  connections of the user remain); that write sets the user's status to offline and
  lastSeen to the clock reading the disconnect handler takes.
\<close>

theorem user_status_on_every_connect_and_disconnect:
  "emitted st (on_connection i u flt st) =
     map (\<lambda>x. (sid x, User_status u online)) (sockets st @ [\<lparr>sid = i, userId = u, rooms = []\<rparr>])
   \<and> (flt' \<noteq> Some 0 \<longrightarrow>
        emitted st' (disconnect s now flt' st') =
          map (\<lambda>x. (sid x, User_status (userId s) offline))
            (filter (\<lambda>x. sid x \<noteq> sid s) (sockets st'))
        \<and> users (disconnect s now flt' st') =
          update_user (userId s) (\<lambda>r. r\<lparr>status := offline, lastSeen := Some now\<rparr>) (users st'))"
  by (simp add: on_connection_def disconnect_def console_write_def io_emit_def join_def Let_def
      emitted_def)

theorem user_status_on_every_connect_and_disconnect_witness:
  "emitted A_online (on_connection 200 2 None A_online) =
      [(100, User_status 2 online), (200, User_status 2 online)]
   \<and> emitted AB_online (disconnect socket_A 42 None AB_online) = [(200, User_status 1 offline)]
   \<and> users (disconnect socket_A 42 None AB_online) 1 =
      Some (user_A\<lparr>status := offline, lastSeen := Some 42\<rparr>)"
  using user_status_on_every_connect_and_disconnect
    [where st = A_online and i = 200 and u = 2 and flt = None and flt' = None
       and st' = AB_online and s = socket_A and now = 42]
  by (simp add: sockets_A_online sockets_AB_online) (simp add: scenario_defs handler_defs)

text \<open>
  C10. On disconnect the user's registry entry is removed whatever the storage write
  does; when that write fails, the error is logged and nothing else happens: no
  \<^verbatim>\<open>user_status\<close> event (no event at all) is delivered to any connection, the stored
  user is unchanged and the process keeps running.
\<close>

theorem disconnect_storage_failure_silent:
  "connectedUsers (disconnect s now flt st) = (connectedUsers st)(userId s := None)
   \<and> emitted st (disconnect s now (Some 0) st) = []
   \<and> users (disconnect s now (Some 0) st) = users st
   \<and> console (disconnect s now (Some 0) st) =
       console st @ [''User disconnected'', ''Error updating user status on disconnect:'']
   \<and> exited (disconnect s now (Some 0) st) = exited st"
  by (simp add: disconnect_def console_write_def io_emit_def emitted_def Let_def)

section \<open>Event router\<close>

text \<open>
  C1, evaluated on the code. \<open>chat1\<close> holds two unread messages, one by A and one by B,
  and A's connection sends \<^verbatim>\<open>read_message { chatId: chat1 }\<close>. The claim asks for exactly
  B's message to be marked. The handler filters on \<^verbatim>\<open>receiver\<close>, a path no Message has:
  with the path kept in the filter nothing is marked, with the path dropped both messages
  are marked, A's own included.
\<close>

theorem read_message_misses_other_authors:
  "map read (messages (read_message False socket_A (Object None (Some (Canonical 10)) None) None
       (AB_online\<lparr>messages := unread_pair\<rparr>))) = [False, False]
   \<and> map read (messages (read_message True socket_A (Object None (Some (Canonical 10)) None) None
       (AB_online\<lparr>messages := unread_pair\<rparr>))) = [True, True]"
  by (simp add: unread_pair_def scenario_defs handler_defs)

text \<open>
  C3, as the specification states it, fails: C is connected and not subscribed to
  \<open>chat1\<close>, and sends \<^verbatim>\<open>{ content: "hi", chatId: chat1 }\<close>. The message is stored, the
  chat's lastMessage pointer moves to it, and \<^verbatim>\<open>new_message\<close> goes to A and B; C gets
  no error event.
\<close>

theorem unsubscribed_sender_is_served:
  "\<not> in_room (Some (Canonical 10)) socket_C
   \<and> socket_C \<in> set (sockets ABC_online)
   \<and> messages (send_message socket_C (Object (Some ''hi'') (Some (Canonical 10)) None) None ABC_online) =
       [\<lparr>mid = 1, sender = 3, content = ''hi'', chatId = 10, read = False\<rparr>]
   \<and> map lastMessage (chats ABC_online) = [None]
   \<and> map lastMessage
        (chats (send_message socket_C (Object (Some ''hi'') (Some (Canonical 10)) None) None ABC_online)) =
       [Some 1]
   \<and> emitted ABC_online
        (send_message socket_C (Object (Some ''hi'') (Some (Canonical 10)) None) None ABC_online) =
       [(100, New_message (Some (\<lparr>mid = 1, sender = 3, content = ''hi'', chatId = 10,
                                   read = False\<rparr>, Some (''C'', ''c.png'')))),
        (200, New_message (Some (\<lparr>mid = 1, sender = 3, content = ''hi'', chatId = 10,
                                   read = False\<rparr>, Some (''C'', ''c.png''))))]"
  by (simp add: scenario_defs handler_defs)

text \<open>
  C3, amended. For every \<^verbatim>\<open>send_message\<close> event whose content is empty, an error event
  is unicast to the originator only, no Message record is persisted, the room's
  lastMessage pointer is unchanged, and no \<^verbatim>\<open>new_message\<close> is fanned out to any
  connection (the error event is the only delivery). Whether the originator is subscribed
  to the target chat is not checked.
\<close>

theorem send_message_empty_content_rejected:
  assumes "destructure data = Some f" and "f_content f = Some []"
  shows "emitted st (send_message s data flt st) = [(sid s, Error_event ''Failed to send message'')]
    \<and> messages (send_message s data flt st) = messages st
    \<and> chats (send_message s data flt st) = chats st
    \<and> sockets (send_message s data flt st) = sockets st
    \<and> exited (send_message s data flt st) = exited st"
  using assms
  by (simp add: send_message_def new_Message_def catch_error_def socket_emit_def
      console_write_def emitted_def)

theorem send_message_empty_content_rejected_witness:
  "emitted AB_online (send_message socket_A (Object (Some []) (Some (Canonical 10)) None) None AB_online) =
      [(100, Error_event ''Failed to send message'')]
    \<and> messages (send_message socket_A (Object (Some []) (Some (Canonical 10)) None) None AB_online) = []
    \<and> map lastMessage
        (chats (send_message socket_A (Object (Some []) (Some (Canonical 10)) None) None AB_online)) = [None]"
  using send_message_empty_content_rejected
    [where data = "Object (Some []) (Some (Canonical 10)) None" and s = socket_A and st = AB_online
       and flt = None and f = "\<lparr>f_content = Some [], f_chatId = Some (Canonical 10), f_isTyping = None\<rparr>"]
  by (simp add: destructure_def) (simp add: scenario_defs handler_defs)

text \<open>
  C6, evaluated on the code. A \<^verbatim>\<open>typing\<close> event with no payload makes the process
  exit, and no error event is sent; the same payload to \<^verbatim>\<open>send_message\<close> and
  \<^verbatim>\<open>read_message\<close>, whose bodies are inside \<^verbatim>\<open>try\<close>, yields the error event to the
  originator and the process keeps running.
\<close>

theorem typing_without_payload_exits:
  "exited (typing s Nullish st)
   \<and> emitted st (typing s Nullish st) = []
   \<and> \<not> exited (send_message s Nullish flt (st\<lparr>exited := False\<rparr>))
   \<and> emitted st (send_message s Nullish flt st) = [(sid s, Error_event ''Failed to send message'')]
   \<and> \<not> exited (read_message q s Nullish flt (st\<lparr>exited := False\<rparr>))
   \<and> emitted st (read_message q s Nullish flt st) =
       [(sid s, Error_event ''Failed to mark messages as read'')]"
  by (simp add: handler_defs)






end
